theory Spec2Isabelle
  imports Main
begin

section \<open>JSON values and task objects\<close>

text \<open>
  The server keeps its tasks as plain JavaScript objects, read from and written to two
  JSON files. An object is a finite map from property names to JSON values; a property
  that is absent reads as \<open>undefined\<close>, which is \<open>None\<close> here.

  Scalars only: no handler looks inside a nested array or object. Numbers are integers.
  \<open>JIso t\<close> is the string that \<open>new Date(t).toISOString()\<close> produces for the instant
  \<open>t\<close> (milliseconds since the epoch), which \<open>new Date(...)\<close> reads back as \<open>t\<close>;
  \<open>JStr\<close> is any other string, given by the bytes of its UTF-8 encoding.
\<close>

datatype jval = JNull | JBool bool | JNum int | JStr string | JIso int

type_synonym obj = "string \<rightharpoonup> jval"

text \<open>JavaScript's truthiness, as \<open>!x\<close> uses it.\<close>

fun truthy :: "jval option \<Rightarrow> bool" where
  "truthy None = False"
| "truthy (Some JNull) = False"
| "truthy (Some (JBool b)) = b"
| "truthy (Some (JNum n)) = (n \<noteq> 0)"
| "truthy (Some (JStr s)) = (s \<noteq> [])"
| "truthy (Some (JIso t)) = True"

text \<open>
  What the code takes from the JavaScript host it runs on: ECMAScript's \<open>LocalTime(t)\<close>
  and \<open>UTC(t)\<close>, which carry a time value from UTC to the host's time zone and back, and
  \<open>Date.parse\<close> on a string that is not a \<open>toISOString\<close> stamp (\<open>None\<close> for NaN).
\<close>

record host =
  LocalTime :: "int \<Rightarrow> int"
  UTC :: "int \<Rightarrow> int"
  Date_parse :: "string \<Rightarrow> int option"

text \<open>\<open>TimeClip\<close>: a time value is at most 8.64e15 ms away from the epoch.\<close>

definition timeClip :: "int \<Rightarrow> int option" where
  "timeClip n = (if \<bar>n\<bar> \<le> 8640000000000000 then Some n else None)"

text \<open>The time value of \<open>new Date(v)\<close>; \<open>None\<close> is the Invalid Date (NaN).\<close>

fun dateOf :: "host \<Rightarrow> jval option \<Rightarrow> int option" where
  "dateOf h None = None"
| "dateOf h (Some JNull) = Some 0"
| "dateOf h (Some (JBool b)) = Some (if b then 1 else 0)"
| "dateOf h (Some (JNum n)) = timeClip n"
| "dateOf h (Some (JStr s)) = Date_parse h s"
| "dateOf h (Some (JIso t)) = Some t"

text \<open>\<open>a >= b\<close> and \<open>a > b\<close> on two Date objects: false when either is invalid.\<close>

fun date_ge :: "int option \<Rightarrow> int option \<Rightarrow> bool" where
  "date_ge (Some a) (Some b) = (a \<ge> b)"
| "date_ge _ _ = False"

fun date_gt :: "int option \<Rightarrow> int option \<Rightarrow> bool" where
  "date_gt (Some a) (Some b) = (a > b)"
| "date_gt _ _ = False"

text \<open>
  \<open>d = new Date(); d.setDate(d.getDate() - 30)\<close> at the instant \<open>now\<close>. \<open>setDate\<close>
  works on the local calendar: it takes the local time of \<open>now\<close>, keeps the time within
  the day and moves the day back by thirty, and converts the result to UTC. On a host
  whose offset from UTC changed in between (daylight saving time) that is not
  \<open>now - 30 * dayMs\<close>.
\<close>

definition dayMs :: int where
  "dayMs = 86400000"

definition thirtyDaysAgo :: "host \<Rightarrow> int \<Rightarrow> int" where
  "thirtyDaysAgo h now = UTC h (LocalTime h now - 30 * dayMs)"

text \<open>\<open>todo => todo.id === id\<close>, where \<open>id\<close> is the string of the request's path.\<close>

definition has_id :: "string \<Rightarrow> obj \<Rightarrow> bool" where
  "has_id i t = (t ''id'' = Some (JStr i))"

text \<open>\<open>Array.prototype.findIndex\<close>: the first index whose element passes, \<open>None\<close> for -1.\<close>

fun findIndex :: "('a \<Rightarrow> bool) \<Rightarrow> 'a list \<Rightarrow> nat option" where
  "findIndex p [] = None"
| "findIndex p (x # xs) = (if p x then Some 0 else map_option Suc (findIndex p xs))"

text \<open>The array left by \<open>xs.splice(i, 1)\<close>.\<close>

definition splice1 :: "nat \<Rightarrow> 'a list \<Rightarrow> 'a list" where
  "splice1 i xs = take i xs @ drop (Suc i) xs"


section \<open>The server (backend/server.js)\<close>

text \<open>
  The two data files, \<open>todos.json\<close> and \<open>recycled.json\<close>. Every handler reads the
  files it needs, works on the arrays in memory and writes them back.
\<close>

record store =
  todos :: "obj list"
  recycled :: "obj list"

datatype error = NotFound

text \<open>
  \<open>app.post('/api/todos')\<close>. \<open>uuid\<close> is what \<open>uuidv4()\<close> returned and \<open>now\<close> the
  clock. In \<open>{ id: uuidv4(), ...req.body, createdAt: ... }\<close> the later property wins:
  the body is spread over \<open>id\<close>, and \<open>createdAt\<close> is written over the body.
\<close>

definition post_todos :: "string \<Rightarrow> int \<Rightarrow> obj \<Rightarrow> store \<Rightarrow> obj \<times> store" where
  "post_todos uuid now body s =
     (let newTodo = ([''id'' \<mapsto> JStr uuid] ++ body)(''createdAt'' \<mapsto> JIso now)
      in (newTodo, s\<lparr>todos := todos s @ [newTodo]\<rparr>))"

text \<open>\<open>app.put('/api/todos/:id')\<close>.\<close>

definition put_todo :: "int \<Rightarrow> string \<Rightarrow> obj \<Rightarrow> store \<Rightarrow> (error + obj) \<times> store" where
  "put_todo now i body s =
     (case findIndex (has_id i) (todos s) of
        None \<Rightarrow> (Inl NotFound, s)
      | Some k \<Rightarrow>
          (let t = ((todos s ! k) ++ body)(''updatedAt'' \<mapsto> JIso now)
           in (Inr t, s\<lparr>todos := (todos s)[k := t]\<rparr>)))"

text \<open>\<open>app.patch('/api/todos/:id/toggle')\<close>.\<close>

definition patch_toggle :: "int \<Rightarrow> string \<Rightarrow> store \<Rightarrow> (error + obj) \<times> store" where
  "patch_toggle now i s =
     (case findIndex (has_id i) (todos s) of
        None \<Rightarrow> (Inl NotFound, s)
      | Some k \<Rightarrow>
          (let t = ((todos s ! k)(''completed'' \<mapsto> JBool (\<not> truthy ((todos s ! k) ''completed''))))
                     (''updatedAt'' \<mapsto> JIso now)
           in (Inr t, s\<lparr>todos := (todos s)[k := t]\<rparr>)))"

text \<open>\<open>app.patch('/api/todos/:id/recycle')\<close>: the move to the recycle bin.\<close>

definition patch_recycle :: "int \<Rightarrow> string \<Rightarrow> store \<Rightarrow> (error + obj) \<times> store" where
  "patch_recycle now i s =
     (case findIndex (has_id i) (todos s) of
        None \<Rightarrow> (Inl NotFound, s)
      | Some k \<Rightarrow>
          (let removedTodo = (todos s ! k)(''deletedAt'' \<mapsto> JIso now)
           in (Inr removedTodo,
               \<lparr>todos = splice1 k (todos s), recycled = recycled s @ [removedTodo]\<rparr>)))"

text \<open>\<open>app.patch('/api/todos/:id/restore')\<close>.\<close>

definition patch_restore :: "int \<Rightarrow> string \<Rightarrow> store \<Rightarrow> (error + obj) \<times> store" where
  "patch_restore now i s =
     (case findIndex (has_id i) (recycled s) of
        None \<Rightarrow> (Inl NotFound, s)
      | Some k \<Rightarrow>
          (let restoredTodo = ((recycled s ! k)(''deletedAt'' := None))(''restoredAt'' \<mapsto> JIso now)
           in (Inr restoredTodo,
               \<lparr>todos = todos s @ [restoredTodo], recycled = splice1 k (recycled s)\<rparr>)))"

text \<open>\<open>app.delete('/api/todos/:id')\<close>: the permanent deletion of one recycled task.\<close>

definition delete_todo :: "string \<Rightarrow> store \<Rightarrow> (error + obj) \<times> store" where
  "delete_todo i s =
     (case findIndex (has_id i) (recycled s) of
        None \<Rightarrow> (Inl NotFound, s)
      | Some k \<Rightarrow> (Inr (recycled s ! k), s\<lparr>recycled := splice1 k (recycled s)\<rparr>))"

text \<open>
  The handler of \<open>app.delete('/api/todos/cleanup')\<close>: keeps the recycled tasks with
  \<open>deletedAt >= thirtyDaysAgo\<close> and answers how many it removed.
\<close>

definition delete_cleanup :: "host \<Rightarrow> int \<Rightarrow> store \<Rightarrow> nat \<times> store" where
  "delete_cleanup h now s =
     (let filteredRecycled =
            filter (\<lambda>todo. date_ge (dateOf h (todo ''deletedAt'')) (Some (thirtyDaysAgo h now)))
              (recycled s);
          removedCount = length (recycled s) - length filteredRecycled
      in (removedCount, s\<lparr>recycled := filteredRecycled\<rparr>))"


subsection \<open>Routing\<close>

text \<open>
  Express tries the routes in the order in which they were registered and runs the first
  one whose method and path match; no handler of this server passes the request on. A
  path is the list of its segments (the text between the slashes, free of percent
  escapes). A fixed segment matches without regard to the case of the letters A to Z,
  \<open>:id\<close> matches any one non-empty segment, and one slash at the end of the path is
  ignored.
\<close>

datatype meth = GET | POST | PUT | PATCH | DELETE

datatype seg = Lit string | Param

datatype handler =
  GetTodos | PostTodos | PutTodo | PatchToggle | PatchRecycle | GetRecycled
  | PatchRestore | DeleteTodo | DeleteCleanup

datatype reply =
  Tasks "obj list" | Task obj | Created obj | Cleaned nat | Status404 | NoRoute

definition lower :: "char \<Rightarrow> char" where
  "lower c =
     (case map_of (zip ''ABCDEFGHIJKLMNOPQRSTUVWXYZ'' ''abcdefghijklmnopqrstuvwxyz'') c of
        None \<Rightarrow> c
      | Some d \<Rightarrow> d)"

definition strip_slash :: "string list \<Rightarrow> string list" where
  "strip_slash p = (if p \<noteq> [] \<and> last p = [] then butlast p else p)"

fun match_path :: "seg list \<Rightarrow> string list \<Rightarrow> string list option" where
  "match_path [] [] = Some []"
| "match_path (Lit l # ps) (x # xs) =
     (if map lower l = map lower x then match_path ps xs else None)"
| "match_path (Param # ps) (x # xs) =
     (if x = [] then None else map_option ((#) x) (match_path ps xs))"
| "match_path _ _ = None"

text \<open>The routes of server.js, top to bottom.\<close>

definition routes :: "(meth \<times> seg list \<times> handler) list" where
  "routes =
     [(GET, [Lit ''api'', Lit ''todos''], GetTodos),
      (POST, [Lit ''api'', Lit ''todos''], PostTodos),
      (PUT, [Lit ''api'', Lit ''todos'', Param], PutTodo),
      (PATCH, [Lit ''api'', Lit ''todos'', Param, Lit ''toggle''], PatchToggle),
      (PATCH, [Lit ''api'', Lit ''todos'', Param, Lit ''recycle''], PatchRecycle),
      (GET, [Lit ''api'', Lit ''todos'', Lit ''recycled''], GetRecycled),
      (PATCH, [Lit ''api'', Lit ''todos'', Param, Lit ''restore''], PatchRestore),
      (DELETE, [Lit ''api'', Lit ''todos'', Param], DeleteTodo),
      (DELETE, [Lit ''api'', Lit ''todos'', Lit ''cleanup''], DeleteCleanup)]"

fun first_match ::
  "(meth \<times> seg list \<times> handler) list \<Rightarrow> meth \<Rightarrow> string list \<Rightarrow> (handler \<times> string list) option" where
  "first_match [] m p = None"
| "first_match ((m', pat, h) # rs) m p =
     (if m' = m then
        (case match_path pat p of
           Some params \<Rightarrow> Some (h, params)
         | None \<Rightarrow> first_match rs m p)
      else first_match rs m p)"

definition as_reply :: "(error + obj) \<times> store \<Rightarrow> reply \<times> store" where
  "as_reply r = (case fst r of Inl NotFound \<Rightarrow> (Status404, snd r) | Inr t \<Rightarrow> (Task t, snd r))"

definition run_handler ::
  "host \<Rightarrow> string \<Rightarrow> int \<Rightarrow> handler \<Rightarrow> string list \<Rightarrow> obj \<Rightarrow> store \<Rightarrow> reply \<times> store" where
  "run_handler h uuid now hnd params body s =
     (let i = (case params of [] \<Rightarrow> [] | x # _ \<Rightarrow> x) in
      case hnd of
        GetTodos \<Rightarrow> (Tasks (todos s), s)
      | PostTodos \<Rightarrow> (let (t, s') = post_todos uuid now body s in (Created t, s'))
      | PutTodo \<Rightarrow> as_reply (put_todo now i body s)
      | PatchToggle \<Rightarrow> as_reply (patch_toggle now i s)
      | PatchRecycle \<Rightarrow> as_reply (patch_recycle now i s)
      | GetRecycled \<Rightarrow> (Tasks (recycled s), s)
      | PatchRestore \<Rightarrow> as_reply (patch_restore now i s)
      | DeleteTodo \<Rightarrow> as_reply (delete_todo i s)
      | DeleteCleanup \<Rightarrow> (let (n, s') = delete_cleanup h now s in (Cleaned n, s')))"

definition dispatch ::
  "host \<Rightarrow> string \<Rightarrow> int \<Rightarrow> meth \<Rightarrow> string list \<Rightarrow> obj \<Rightarrow> store \<Rightarrow> reply \<times> store" where
  "dispatch h uuid now m p body s =
     (case first_match routes m (strip_slash p) of
        None \<Rightarrow> (NoRoute, s)
      | Some (hnd, params) \<Rightarrow> run_handler h uuid now hnd params body s)"


section \<open>The page (js/app.js)\<close>

text \<open>
  The page talks to the server through \<open>ApiService\<close>, one request per call. The
  handlers below are the ones that decide what reaches the server.
\<close>

text \<open>
  \<open>String.prototype.trim\<close> removes white space and line terminators from both ends.
  These are the characters it removes, each by its UTF-8 bytes: U+0009 to U+000D, U+0020,
  U+00A0, U+1680, U+2000 to U+200A, U+2028, U+2029, U+202F, U+205F, U+3000 and U+FEFF.
\<close>

definition white_space :: "string list" where
  "white_space =
     [[CHR 0x09], [CHR 0x0A], [CHR 0x0B], [CHR 0x0C], [CHR 0x0D], [CHR 0x20],
      [CHR 0xC2, CHR 0xA0],
      [CHR 0xE1, CHR 0x9A, CHR 0x80],
      [CHR 0xE2, CHR 0x80, CHR 0x80], [CHR 0xE2, CHR 0x80, CHR 0x81],
      [CHR 0xE2, CHR 0x80, CHR 0x82], [CHR 0xE2, CHR 0x80, CHR 0x83],
      [CHR 0xE2, CHR 0x80, CHR 0x84], [CHR 0xE2, CHR 0x80, CHR 0x85],
      [CHR 0xE2, CHR 0x80, CHR 0x86], [CHR 0xE2, CHR 0x80, CHR 0x87],
      [CHR 0xE2, CHR 0x80, CHR 0x88], [CHR 0xE2, CHR 0x80, CHR 0x89],
      [CHR 0xE2, CHR 0x80, CHR 0x8A],
      [CHR 0xE2, CHR 0x80, CHR 0xA8], [CHR 0xE2, CHR 0x80, CHR 0xA9],
      [CHR 0xE2, CHR 0x80, CHR 0xAF],
      [CHR 0xE2, CHR 0x81, CHR 0x9F],
      [CHR 0xE3, CHR 0x80, CHR 0x80],
      [CHR 0xEF, CHR 0xBB, CHR 0xBF]]"

text \<open>
  The number of bytes of the first of the words \<open>ws\<close> that \<open>s\<close> starts with, 0 when it
  starts with none; and \<open>s\<close> without every such word at its start.
\<close>

fun leading :: "string list \<Rightarrow> string \<Rightarrow> nat" where
  "leading [] s = 0"
| "leading (w # ws) s = (if w \<noteq> [] \<and> take (length w) s = w then length w else leading ws s)"

lemma leading_le: "leading ws s \<le> length s"
proof (induction ws)
  case Nil
  then show ?case by simp
next
  case (Cons w ws)
  show ?case
  proof (cases "w \<noteq> [] \<and> take (length w) s = w")
    case True
    then have "length (take (length w) s) = length w" by simp
    then have "length w \<le> length s" by simp
    with True show ?thesis by simp
  next
    case False
    with Cons show ?thesis by auto
  qed
qed

function strip :: "string list \<Rightarrow> string \<Rightarrow> string" where
  "strip ws s = (if leading ws s = 0 then s else strip ws (drop (leading ws s) s))"
  by pat_completeness auto
termination
proof (relation "measure (\<lambda>(ws, s). length s)")
  show "wf (measure (\<lambda>(ws, s). length s))" by simp
next
  fix ws :: "string list" and s :: string
  assume "leading ws s \<noteq> 0"
  moreover have "leading ws s \<le> length s" by (rule leading_le)
  ultimately show "((ws, drop (leading ws s) s), (ws, s)) \<in> measure (\<lambda>(ws, s). length s)"
    by simp
qed

text \<open>
  At the end of the string the same words are sought backwards; in UTF-8 the bytes of one
  character never end another.
\<close>

definition trimStart :: "string \<Rightarrow> string" where
  "trimStart s = strip white_space s"

definition trimEnd :: "string \<Rightarrow> string" where
  "trimEnd s = rev (strip (map rev white_space) (rev s))"

definition trim :: "string \<Rightarrow> string" where
  "trim s = trimEnd (trimStart s)"

datatype outcome = Alert string | Sent reply

text \<open>
  The click handler of the save button in \<open>showAddTaskForm\<close>. \<open>cnow\<close> is the
  browser's clock; \<open>h\<close>, \<open>uuid\<close> and \<open>now\<close> are the server's host, draw and clock.
\<close>

definition saveButton_click ::
  "host \<Rightarrow> string \<Rightarrow> int \<Rightarrow> int \<Rightarrow> string \<Rightarrow> string \<Rightarrow> string \<Rightarrow> store \<Rightarrow> outcome \<times> store" where
  "saveButton_click h uuid now cnow titleInput dueDate category s =
     (let title = trim titleInput in
      if title = [] then (Alert ''Please enter a task title'', s)
      else
        (let newTask = [''title'' \<mapsto> JStr title, ''dueDate'' \<mapsto> JStr dueDate,
                        ''category'' \<mapsto> JStr category, ''completed'' \<mapsto> JBool False,
                        ''createdAt'' \<mapsto> JIso cnow];
             (r, s') = dispatch h uuid now POST [''api'', ''todos''] newTask s
         in (Sent r, s')))"

text \<open>
  The click handler of the update button in \<open>editTask\<close>; \<open>task\<close> is the task the
  form was opened on and \<open>taskId\<close> its identifier.
\<close>

definition updateButton_click ::
  "host \<Rightarrow> string \<Rightarrow> int \<Rightarrow> obj \<Rightarrow> string \<Rightarrow> string \<Rightarrow> string \<Rightarrow> string \<Rightarrow> store \<Rightarrow> outcome \<times> store" where
  "updateButton_click h uuid now task taskId titleInput dueDate category s =
     (let title = trim titleInput in
      if title = [] then (Alert ''Please enter a task title'', s)
      else
        (let updatedTask = task ++ [''title'' \<mapsto> JStr title, ''dueDate'' \<mapsto> JStr dueDate,
                                    ''category'' \<mapsto> JStr category];
             (r, s') = dispatch h uuid now PUT [''api'', ''todos'', taskId] updatedTask s
         in (Sent r, s')))"

text \<open>
  \<open>showRecycleBin\<close>, as far as the server sees it: the list it shows is what
  \<open>ApiService.getRecycledTasks\<close> returned (the empty list when the request failed), and
  its last statement is \<open>ApiService.cleanupRecycleBin()\<close>, a DELETE of
  \<open>/api/todos/cleanup\<close>. The result is the list shown, the server's answer to the
  clean-up request, and the store afterwards.
\<close>

definition showRecycleBin :: "host \<Rightarrow> string \<Rightarrow> int \<Rightarrow> store \<Rightarrow> obj list \<times> reply \<times> store" where
  "showRecycleBin h uuid now s =
     (let (r1, s1) = dispatch h uuid now GET [''api'', ''todos'', ''recycled''] Map.empty s;
          recycledTasks = (case r1 of Tasks ts \<Rightarrow> ts | _ \<Rightarrow> []);
          (r2, s2) = dispatch h uuid now DELETE [''api'', ''todos'', ''cleanup''] Map.empty s1
      in (recycledTasks, r2, s2))"


section \<open>The Storage module (js/storage.js)\<close>

text \<open>
  The module keeps the same two collections in the browser's \<open>localStorage\<close>, under
  the keys \<open>todoTasks\<close> and \<open>recycledTasks\<close>; a key that was never written reads as
  the empty list. Each function returns the list its source returns, and the storage.
  \<open>deleteTask\<close> is declared twice in the module; the later declaration is the one in
  force.
\<close>

record local_storage =
  todoTasks :: "obj list"
  recycledTasks :: "obj list"

definition Storage_deleteTask :: "int \<Rightarrow> string \<Rightarrow> local_storage \<Rightarrow> obj list \<times> local_storage" where
  "Storage_deleteTask now taskId ls =
     (case findIndex (has_id taskId) (todoTasks ls) of
        None \<Rightarrow> (todoTasks ls, ls)
      | Some k \<Rightarrow>
          (let taskToRecycle = (todoTasks ls ! k)(''deletedAt'' \<mapsto> JIso now);
               tasks = splice1 k (todoTasks ls)
           in (tasks, \<lparr>todoTasks = tasks, recycledTasks = recycledTasks ls @ [taskToRecycle]\<rparr>)))"

definition Storage_permanentlyDeleteTask :: "string \<Rightarrow> local_storage \<Rightarrow> obj list \<times> local_storage" where
  "Storage_permanentlyDeleteTask taskId ls =
     (let filteredTasks = filter (\<lambda>task. \<not> has_id taskId task) (recycledTasks ls)
      in (filteredTasks, ls\<lparr>recycledTasks := filteredTasks\<rparr>))"

definition Storage_restoreTask :: "string \<Rightarrow> local_storage \<Rightarrow> obj list \<times> local_storage" where
  "Storage_restoreTask taskId ls =
     (case findIndex (has_id taskId) (recycledTasks ls) of
        None \<Rightarrow> (recycledTasks ls, ls)
      | Some k \<Rightarrow>
          (let taskToRestore = (recycledTasks ls ! k)(''deletedAt'' := None);
               rest = splice1 k (recycledTasks ls)
           in (rest, \<lparr>todoTasks = todoTasks ls @ [taskToRestore], recycledTasks = rest\<rparr>)))"

text \<open>\<open>cleanupRecycleBin\<close> keeps the tasks with \<open>deletedDate > thirtyDaysAgo\<close>.\<close>

definition Storage_cleanupRecycleBin ::
  "host \<Rightarrow> int \<Rightarrow> local_storage \<Rightarrow> obj list \<times> local_storage" where
  "Storage_cleanupRecycleBin h now ls =
     (let filteredTasks =
            filter (\<lambda>task. date_gt (dateOf h (task ''deletedAt'')) (Some (thirtyDaysAgo h now)))
              (recycledTasks ls)
      in (filteredTasks, ls\<lparr>recycledTasks := filteredTasks\<rparr>))"


section \<open>Vocabulary of the properties\<close>

text \<open>The identifiers a collection holds, and the property of a handler's answer.\<close>

definition ids :: "obj list \<Rightarrow> jval option list" where
  "ids ts = map (\<lambda>t. t ''id'') ts"

definition field :: "string \<Rightarrow> error + obj \<Rightarrow> jval option" where
  "field k r = (case r of Inl e \<Rightarrow> None | Inr t \<Rightarrow> t k)"

text \<open>
  The invariant of the two collections: no identifier occurs twice, within a collection
  or across the two.
\<close>

definition separate :: "store \<Rightarrow> bool" where
  "separate s = distinct (ids (todos s) @ ids (recycled s))"


section \<open>Scenarios\<close>

text \<open>Concrete tasks, stores and request bodies on which the properties are evaluated.\<close>

text \<open>
  Two hosts. The first keeps UTC. The second keeps the time of New York in 2024, where
  daylight saving time began on 10 March at 07:00 UTC (1710054000000), 03:00 on the local
  clock (1710039600000 as a local time value): the offset is five hours before and four
  hours after. No scenario holds a date string other than a stamp, so neither host's
  parser is ever asked.
\<close>

definition utc_host :: host where
  "utc_host = \<lparr>LocalTime = (\<lambda>t. t), UTC = (\<lambda>t. t), Date_parse = (\<lambda>s. None)\<rparr>"


definition milk :: obj where
  "milk = [''id'' \<mapsto> JStr ''a'', ''title'' \<mapsto> JStr ''Buy milk'', ''completed'' \<mapsto> JBool False,
           ''createdAt'' \<mapsto> JIso 1]"

definition empty_store :: store where
  "empty_store = \<lparr>todos = [], recycled = []\<rparr>"

definition one_active :: store where
  "one_active = \<lparr>todos = [milk], recycled = []\<rparr>"

text \<open>The task was restored at instant 3 and is active again.\<close>

definition restored_active :: store where
  "restored_active = \<lparr>todos = [milk(''restoredAt'' \<mapsto> JIso 3)], recycled = []\<rparr>"

text \<open>The task was deleted at instant 0 and lies in the recycle bin.\<close>

definition one_recycled :: store where
  "one_recycled = \<lparr>todos = [], recycled = [milk(''deletedAt'' \<mapsto> JIso 0)]\<rparr>"

definition one_recycled_local :: local_storage where
  "one_recycled_local = \<lparr>todoTasks = [], recycledTasks = [milk(''deletedAt'' \<mapsto> JIso 0)]\<rparr>"


text \<open>A title of one no-break space (U+00A0).\<close>

definition nbsp :: string where
  "nbsp = [CHR 0xC2, CHR 0xA0]"

text \<open>A request body with an empty title, and one that brings an identifier of its own.\<close>

definition untitled :: obj where
  "untitled = [''title'' \<mapsto> JStr [], ''completed'' \<mapsto> JBool False]"

definition forged :: obj where
  "forged = [''id'' \<mapsto> JStr ''a'', ''title'' \<mapsto> JStr ''Buy milk'']"


definition renaming :: obj where
  "renaming = [''id'' \<mapsto> JStr ''b'']"

text \<open>
  Three requests to a fresh server: a task is created (the server draws the identifier
  \<open>a\<close> for it) and moved to the recycle bin; then a second task is posted whose body
  brings the identifier \<open>a\<close> with it.
\<close>

definition milk_body :: obj where
  "milk_body = [''title'' \<mapsto> JStr ''Buy milk'', ''completed'' \<mapsto> JBool False]"

definition recycled_run :: store where
  "recycled_run =
     snd (dispatch utc_host ''u2'' 5 PATCH [''api'', ''todos'', ''a'', ''recycle''] Map.empty
       (snd (dispatch utc_host ''a'' 1 POST [''api'', ''todos''] milk_body empty_store)))"

definition forged_run :: store where
  "forged_run = snd (dispatch utc_host ''u3'' 9 POST [''api'', ''todos''] forged recycled_run)"

text \<open>
  The same, with a third request that posts another task under the identifier \<open>a\<close>: the
  Active Set then holds ``Pay rent'' and the Recycle Set ``Buy milk'', both as \<open>a\<close>.
\<close>

definition rent_forged :: obj where
  "rent_forged = [''id'' \<mapsto> JStr ''a'', ''title'' \<mapsto> JStr ''Pay rent'']"

definition twin_run :: store where
  "twin_run = snd (dispatch utc_host ''u3'' 9 POST [''api'', ''todos''] rent_forged recycled_run)"


section \<open>Searching and cutting a list\<close>

lemma findIndex_None: "findIndex p xs = None \<longleftrightarrow> (\<forall>x\<in>set xs. \<not> p x)"
  by (induction xs) auto

lemma findIndex_first:
  "(\<forall>u\<in>set pre. \<not> p u) \<Longrightarrow> p t \<Longrightarrow> findIndex p (pre @ t # post) = Some (length pre)"
  by (induction pre) auto

lemma splice1_middle: "splice1 (length pre) (pre @ t # post) = pre @ post"
  by (simp add: splice1_def)

lemma findIndex_Some_split:
  "findIndex p xs = Some k \<Longrightarrow>
     \<exists>pre t post. xs = pre @ t # post \<and> k = length pre \<and> p t \<and> (\<forall>u\<in>set pre. \<not> p u)"
proof (induction xs arbitrary: k)
  case Nil
  then show ?case by simp
next
  case (Cons x xs)
  show ?case
  proof (cases "p x")
    case True
    with Cons.prems have "k = 0" by simp
    with True show ?thesis by (intro exI [of _ "[]"]) simp
  next
    case False
    with Cons.prems obtain j where j: "findIndex p xs = Some j" "k = Suc j"
      by auto
    from Cons.IH [OF j(1)] obtain pre t post
      where "xs = pre @ t # post" "j = length pre" "p t" "\<forall>u\<in>set pre. \<not> p u"
      by blast
    with False j(2) show ?thesis
      by (intro exI [of _ "x # pre"]) auto
  qed
qed


section \<open>Delete, restore and permanent deletion on the server\<close>

text \<open>
  In the statements below, ``the task with identifier \<open>i\<close>'' of a collection is the first
  one that \<open>findIndex\<close> meets: the collection is \<open>pre @ t # post\<close>, \<open>t\<close> carries \<open>i\<close> and no
  task of \<open>pre\<close> does.
\<close>

text \<open>
  Claim C3 says that Delete also clears a \<open>restoredAt\<close> left by an earlier restoration.
  The handler does not: a task restored at instant 3 and deleted at instant 5 goes to the
  recycle bin with \<open>restoredAt\<close> still 3.
\<close>

theorem recycle_keeps_restoredAt_counterexample:
  "field ''restoredAt'' (fst (patch_recycle 5 ''a'' restored_active)) = Some (JIso 3)"
  by (simp add: patch_recycle_def restored_active_def milk_def has_id_def field_def Let_def)

text \<open>
  Claim C3, as the code has it: when the identifier is in the Active Set, Delete removes the
  task from it, stamps \<open>deletedAt\<close> with the current time, leaves every other property
  (\<open>restoredAt\<close> included) as it was, appends the record to the Recycle Set and returns it;
  when the identifier is not in the Active Set, Delete fails with NotFound and changes
  nothing.
\<close>

theorem recycle_moves_task:
  "(todos s = pre @ t # post \<and> (\<forall>u\<in>set pre. \<not> has_id i u) \<and> has_id i t \<longrightarrow>
      (let r = t(''deletedAt'' \<mapsto> JIso now) in
       patch_recycle now i s = (Inr r, \<lparr>todos = pre @ post, recycled = recycled s @ [r]\<rparr>)
       \<and> r ''deletedAt'' = Some (JIso now) \<and> r ''restoredAt'' = t ''restoredAt'' \<and> has_id i r))
   \<and> ((\<forall>u\<in>set (todos s). \<not> has_id i u) \<longrightarrow> patch_recycle now i s = (Inl NotFound, s))"
  by (auto simp: patch_recycle_def findIndex_first findIndex_None[THEN iffD2] splice1_middle
      Let_def has_id_def)

theorem recycle_moves_task_witness:
  "patch_recycle 5 ''a'' restored_active =
     (Inr (milk(''restoredAt'' \<mapsto> JIso 3, ''deletedAt'' \<mapsto> JIso 5)),
      \<lparr>todos = [], recycled = [milk(''restoredAt'' \<mapsto> JIso 3, ''deletedAt'' \<mapsto> JIso 5)]\<rparr>)
   \<and> patch_recycle 5 ''b'' restored_active = (Inl NotFound, restored_active)"
  using recycle_moves_task [of restored_active "[]" "milk(''restoredAt'' \<mapsto> JIso 3)" "[]" "''a''" 5]
    recycle_moves_task [of restored_active "[]" "milk" "[]" "''b''" 5]
  by (simp add: restored_active_def milk_def has_id_def Let_def)

text \<open>
  Claim C4: when the identifier is in the Recycle Set, Restore removes the task from it,
  clears \<open>deletedAt\<close>, stamps \<open>restoredAt\<close> with the current time, appends the task to the
  Active Set and returns the restored record; when the identifier is not in the Recycle
  Set, Restore fails with NotFound (and changes nothing).
\<close>

theorem restore_moves_task:
  "(recycled s = pre @ t # post \<and> (\<forall>u\<in>set pre. \<not> has_id i u) \<and> has_id i t \<longrightarrow>
      (let r = (t(''deletedAt'' := None))(''restoredAt'' \<mapsto> JIso now) in
       patch_restore now i s = (Inr r, \<lparr>todos = todos s @ [r], recycled = pre @ post\<rparr>)
       \<and> r ''deletedAt'' = None \<and> r ''restoredAt'' = Some (JIso now) \<and> has_id i r))
   \<and> ((\<forall>u\<in>set (recycled s). \<not> has_id i u) \<longrightarrow> patch_restore now i s = (Inl NotFound, s))"
  by (auto simp: patch_restore_def findIndex_first findIndex_None[THEN iffD2] splice1_middle
      Let_def has_id_def)

theorem restore_moves_task_witness:
  "patch_restore 9 ''a'' one_recycled =
     (Inr (milk(''deletedAt'' := None, ''restoredAt'' \<mapsto> JIso 9)),
      \<lparr>todos = [milk(''deletedAt'' := None, ''restoredAt'' \<mapsto> JIso 9)], recycled = []\<rparr>)
   \<and> patch_restore 9 ''b'' one_recycled = (Inl NotFound, one_recycled)"
  using restore_moves_task [of one_recycled "[]" "milk(''deletedAt'' \<mapsto> JIso 0)" "[]" "''a''" 9]
    restore_moves_task [of one_recycled "[]" "milk" "[]" "''b''" 9]
  by (simp add: one_recycled_def milk_def has_id_def Let_def)

text \<open>
  Delete and then Restore, in a state where no recycled task carries the identifier:
  Delete at \<open>t1\<close> followed at once by Restore at \<open>t2\<close> puts into the Active Set a task
  that has no \<open>deletedAt\<close>, has \<open>restoredAt = t2\<close>, and agrees with the original task on
  every other property. The Recycle Set is as before.
\<close>

lemma recycle_then_restore:
  assumes "todos s = pre @ t # post" and "\<forall>u\<in>set pre. \<not> has_id i u" and "has_id i t"
    and "\<forall>u\<in>set (recycled s). \<not> has_id i u"
  shows "fst (patch_recycle t1 i s) = Inr (t(''deletedAt'' \<mapsto> JIso t1))
     \<and> (let r = (t(''deletedAt'' := None))(''restoredAt'' \<mapsto> JIso t2) in
        patch_restore t2 i (snd (patch_recycle t1 i s))
          = (Inr r, \<lparr>todos = pre @ post @ [r], recycled = recycled s\<rparr>)
        \<and> r ''deletedAt'' = None \<and> r ''restoredAt'' = Some (JIso t2)
        \<and> (\<forall>k. k \<noteq> ''deletedAt'' \<and> k \<noteq> ''restoredAt'' \<longrightarrow> r k = t k))"
proof -
  let ?d = "t(''deletedAt'' \<mapsto> JIso t1)"
  have step1: "patch_recycle t1 i s = (Inr ?d, \<lparr>todos = pre @ post, recycled = recycled s @ [?d]\<rparr>)"
    using assms(1-3) by (simp add: patch_recycle_def findIndex_first splice1_middle Let_def)
  have "has_id i ?d"
    using assms(3) by (simp add: has_id_def)
  then have found: "findIndex (has_id i) (recycled s @ [?d]) = Some (length (recycled s))"
    using assms(4) by (simp add: findIndex_first)
  have "patch_restore t2 i \<lparr>todos = pre @ post, recycled = recycled s @ [?d]\<rparr>
      = (Inr ((t(''deletedAt'' := None))(''restoredAt'' \<mapsto> JIso t2)),
         \<lparr>todos = pre @ post @ [(t(''deletedAt'' := None))(''restoredAt'' \<mapsto> JIso t2)],
          recycled = recycled s\<rparr>)"
    using splice1_middle [of "recycled s" ?d "[]"]
    by (simp add: patch_restore_def found Let_def)
  then show ?thesis
    by (simp add: step1 Let_def)
qed

lemma recycle_then_restore_example:
  "patch_restore 9 ''a'' (snd (patch_recycle 5 ''a'' one_active))
     = (Inr (milk(''deletedAt'' := None, ''restoredAt'' \<mapsto> JIso 9)),
        \<lparr>todos = [milk(''deletedAt'' := None, ''restoredAt'' \<mapsto> JIso 9)], recycled = []\<rparr>)"
  using recycle_then_restore [of one_active "[]" milk "[]" "''a''" 5 9]
  by (simp add: one_active_def milk_def has_id_def Let_def)

text \<open>
  Claim C7: for an identifier that is not in the Recycle Set, the permanent deletion fails
  with NotFound and leaves both sets as they were; for one that is, it removes the task
  from the Recycle Set, returns it and leaves the Active Set as it was, and when no other
  recycled task carries the identifier, the identifier is gone from the Recycle Set.
\<close>

theorem purge_one:
  "((\<forall>u\<in>set (recycled s). \<not> has_id i u) \<longrightarrow> delete_todo i s = (Inl NotFound, s))
   \<and> (recycled s = pre @ t # post \<and> (\<forall>u\<in>set pre. \<not> has_id i u) \<and> has_id i t \<longrightarrow>
        delete_todo i s = (Inr t, \<lparr>todos = todos s, recycled = pre @ post\<rparr>)
        \<and> ((\<forall>u\<in>set post. \<not> has_id i u) \<longrightarrow>
             (\<forall>u\<in>set (recycled (snd (delete_todo i s))). \<not> has_id i u)))"
  by (auto simp: delete_todo_def findIndex_first findIndex_None[THEN iffD2] splice1_middle)

theorem purge_one_witness:
  "delete_todo ''b'' one_recycled = (Inl NotFound, one_recycled)
   \<and> delete_todo ''a'' one_recycled = (Inr (milk(''deletedAt'' \<mapsto> JIso 0)), empty_store)"
  using purge_one [of one_recycled "''b''" "[]" milk "[]"]
    purge_one [of one_recycled "''a''" "[]" "milk(''deletedAt'' \<mapsto> JIso 0)" "[]"]
  by (simp add: one_recycled_def empty_store_def milk_def has_id_def)


section \<open>The retention sweep\<close>




text \<open>
  Claim C6: a sweep run a second time at the same instant discards nothing and leaves the
  Recycle Set as the first run left it. For the server's handler the second run reports 0
  removed tasks; for \<open>Storage.cleanupRecycleBin\<close> the second run returns the list and the
  storage of the first.
\<close>

theorem sweep_twice:
  "delete_cleanup h now (snd (delete_cleanup h now s)) = (0, snd (delete_cleanup h now s))
   \<and> Storage_cleanupRecycleBin h now (snd (Storage_cleanupRecycleBin h now ls))
       = Storage_cleanupRecycleBin h now ls"
  by (simp add: delete_cleanup_def Storage_cleanupRecycleBin_def Let_def)

theorem sweep_twice_witness:
  "delete_cleanup utc_host (40 * dayMs) (snd (delete_cleanup utc_host (40 * dayMs) one_recycled))
     = (0, empty_store)
   \<and> fst (delete_cleanup utc_host (40 * dayMs) one_recycled) = 1"
  using sweep_twice [of utc_host "40 * dayMs" one_recycled one_recycled_local]
  by (simp add: delete_cleanup_def one_recycled_def empty_store_def thirtyDaysAgo_def dayMs_def
      utc_host_def Let_def)


section \<open>Titles\<close>

text \<open>
  Claim C8 says that a create or edit request with an empty title is rejected before the
  store changes. The server checks nothing: a POST whose body has the title \<open>""\<close> adds a
  task to an empty store, and a PUT with that body sets the title of task \<open>a\<close> to \<open>""\<close>.
\<close>

theorem server_stores_empty_title_counterexample:
  "length (todos (snd (dispatch utc_host ''u1'' 9 POST [''api'', ''todos''] untitled empty_store))) = 1
   \<and> ids (todos (snd (dispatch utc_host ''u1'' 9 POST [''api'', ''todos''] untitled empty_store)))
       = [Some (JStr ''u1'')]
   \<and> field ''title'' (fst (put_todo 9 ''a'' untitled one_active)) = Some (JStr [])"
  by (simp add: dispatch_def strip_slash_def routes_def run_handler_def post_todos_def
      put_todo_def untitled_def empty_store_def one_active_def milk_def has_id_def field_def
      ids_def Let_def)

text \<open>
  Claim C8, as the code has it: the check is the page's. When the title typed into the
  add form or the edit form is empty after trimming, the click handler shows the alert
  and sends no request, so the store is unchanged. The server's handlers apply no check
  of their own. The create handler appends one task, whose title is whatever the body
  holds; the edit handler, for an identifier of the Active Set, replaces the task by its
  merge with the body, so a title in the body, empty or not, becomes the task's title.
\<close>

theorem empty_title_guard:
  "(trim titleInput = [] \<longrightarrow>
      saveButton_click h uuid now cnow titleInput dueDate category s
        = (Alert ''Please enter a task title'', s)
      \<and> updateButton_click h uuid now task taskId titleInput dueDate category s
        = (Alert ''Please enter a task title'', s))
   \<and> todos (snd (post_todos uuid now body s)) = todos s @ [fst (post_todos uuid now body s)]
   \<and> fst (post_todos uuid now body s) ''title'' = body ''title''
   \<and> (todos s = pre @ t # post \<and> (\<forall>u\<in>set pre. \<not> has_id i u) \<and> has_id i t \<longrightarrow>
        (let r = (t ++ body)(''updatedAt'' \<mapsto> JIso now) in
         put_todo now i body s = (Inr r, s\<lparr>todos := pre @ r # post\<rparr>)
         \<and> (\<forall>v. body ''title'' = Some v \<longrightarrow> r ''title'' = Some v)))"
proof -
  have page: "saveButton_click h uuid now cnow titleInput dueDate category s
        = (Alert ''Please enter a task title'', s)
      \<and> updateButton_click h uuid now task taskId titleInput dueDate category s
        = (Alert ''Please enter a task title'', s)"
    if "trim titleInput = []"
    using that by (simp add: saveButton_click_def updateButton_click_def)
  have create: "todos (snd (post_todos uuid now body s))
        = todos s @ [fst (post_todos uuid now body s)]
      \<and> fst (post_todos uuid now body s) ''title'' = body ''title''"
    by (simp add: post_todos_def Let_def map_add_def split: option.splits)
  have edit: "put_todo now i body s
        = (Inr ((t ++ body)(''updatedAt'' \<mapsto> JIso now)),
           s\<lparr>todos := pre @ ((t ++ body)(''updatedAt'' \<mapsto> JIso now)) # post\<rparr>)"
    if "todos s = pre @ t # post" and "\<forall>u\<in>set pre. \<not> has_id i u" and "has_id i t"
    using that by (simp add: put_todo_def findIndex_first Let_def)
  have title: "((t ++ body)(''updatedAt'' \<mapsto> JIso now)) ''title'' = Some v"
    if "body ''title'' = Some v" for v
    using that by (simp add: map_add_def)
  show ?thesis
    using page create edit title by (simp add: Let_def)
qed

theorem empty_title_guard_witness:
  "saveButton_click utc_host ''u1'' 9 8 ''  '' [] ''work'' one_active
     = (Alert ''Please enter a task title'', one_active)
   \<and> saveButton_click utc_host ''u1'' 9 8 nbsp [] ''work'' one_active
     = (Alert ''Please enter a task title'', one_active)
   \<and> updateButton_click utc_host ''u1'' 9 milk ''a'' [] [] ''work'' one_active
     = (Alert ''Please enter a task title'', one_active)
   \<and> fst (post_todos ''u1'' 9 untitled one_active) ''title'' = Some (JStr [])
   \<and> field ''title'' (fst (put_todo 9 ''a'' untitled one_active)) = Some (JStr [])"
  using
    empty_title_guard [of "''  ''" utc_host "''u1''" 9 8 "[]" "''work''" one_active milk "''a''"
      untitled "[]" milk "[]" "''a''"]
    empty_title_guard [of nbsp utc_host "''u1''" 9 8 "[]" "''work''" one_active milk "''a''"
      untitled "[]" milk "[]" "''a''"]
    empty_title_guard [of "[]" utc_host "''u1''" 9 8 "[]" "''work''" one_active milk "''a''"
      untitled "[]" milk "[]" "''a''"]
  by (simp add: trim_def trimStart_def trimEnd_def white_space_def nbsp_def untitled_def
      one_active_def milk_def has_id_def field_def Let_def)


section \<open>Opening the recycle bin\<close>

text \<open>
  The route \<open>DELETE /api/todos/:id\<close> is registered before \<open>DELETE /api/todos/cleanup\<close>,
  so it is the one that answers a clean-up request, with \<open>cleanup\<close> as the identifier.
  No request reaches the clean-up handler.
\<close>

lemma cleanup_request_is_taken_by_delete_route:
  "first_match routes DELETE [''api'', ''todos'', ''cleanup''] = Some (DeleteTodo, [''cleanup''])"
  by (simp add: routes_def)

lemma match_path_length: "match_path pat p = Some ps \<Longrightarrow> length p = length pat"
proof (induction pat arbitrary: p ps)
  case Nil
  then show ?case by (cases p) simp_all
next
  case (Cons sg pat)
  then show ?case by (cases sg; cases p) (auto split: if_splits)
qed

lemma literal_is_taken_by_param:
  assumes "match_path [Lit a, Lit b, Lit c] p = Some ps" and "c \<noteq> []"
  shows "\<exists>x. match_path [Lit a, Lit b, Param] p = Some [x]"
proof -
  from match_path_length [OF assms(1)] have "length p = 3"
    by simp
  then obtain x y z where p: "p = [x, y, z]"
    by (auto simp: length_Suc_conv numeral_3_eq_3)
  from assms(1) have "map lower c = map lower z"
    by (simp add: p split: if_splits)
  with assms(2) have "z \<noteq> []"
    by auto
  with assms(1) show ?thesis
    by (simp add: p split: if_splits)
qed

lemma cleanup_route_unreachable:
  "first_match routes m p \<noteq> Some (DeleteCleanup, ps)"
proof
  assume reached: "first_match routes m p = Some (DeleteCleanup, ps)"
  show False
  proof (cases "match_path [Lit ''api'', Lit ''todos'', Lit ''cleanup''] p")
    case None
    with reached show False
      by (cases m) (simp_all add: routes_def split: option.splits)
  next
    case (Some qs)
    then obtain x where "match_path [Lit ''api'', Lit ''todos'', Param] p = Some [x]"
      using literal_is_taken_by_param by blast
    with reached show False
      by (cases m) (simp_all add: routes_def split: option.splits)
  qed
qed

text \<open>
  So opening the recycle bin shows the Recycle Set as it is, and then asks the server to
  delete permanently the recycled task whose identifier is \<open>cleanup\<close>.
\<close>

lemma showRecycleBin_effect:
  "showRecycleBin h uuid now s = (recycled s, as_reply (delete_todo ''cleanup'' s))"
  by (simp add: showRecycleBin_def dispatch_def strip_slash_def routes_def run_handler_def
      lower_def)

text \<open>
  Claim C9 (the code departs from it): the recycle bin is opened at instant \<open>40 * dayMs\<close>
  on a Recycle Set whose one task was deleted at instant 0, forty days before. The list
  shown holds that task, the clean-up request is answered with status 404, and the store
  is as it was, whatever the host. The clean-up handler, had it run (here on the host that
  keeps UTC), would have removed the task.
\<close>

theorem showRecycleBin_shows_stale_task:
  "showRecycleBin h ''u1'' (40 * dayMs) one_recycled = (recycled one_recycled, Status404, one_recycled)
   \<and> delete_cleanup utc_host (40 * dayMs) one_recycled = (1, empty_store)"
  by (simp add: showRecycleBin_def dispatch_def strip_slash_def routes_def run_handler_def
      as_reply_def delete_todo_def delete_cleanup_def thirtyDaysAgo_def dayMs_def
      one_recycled_def empty_store_def milk_def has_id_def utc_host_def lower_def Let_def)


section \<open>Identifiers\<close>

text \<open>
  Claim C10 (the code departs from it): the create handler writes the generated
  identifier first and spreads the request body over it, so a body that has an \<open>id\<close>
  decides the identifier. Posted to a store that holds task \<open>a\<close>, the body \<open>forged\<close>
  yields a second task \<open>a\<close>, although the server drew \<open>u1\<close>; and a PUT to task \<open>a\<close> whose
  body has the \<open>id\<close> \<open>b\<close> changes the stored identifier to \<open>b\<close>.
\<close>

theorem identifier_taken_from_body:
  "fst (post_todos ''u1'' 9 forged one_active) ''id'' = Some (JStr ''a'')
   \<and> ids (todos (snd (post_todos ''u1'' 9 forged one_active))) = [Some (JStr ''a''), Some (JStr ''a'')]
   \<and> field ''id'' (fst (put_todo 9 ''a'' renaming one_active)) = Some (JStr ''b'')
   \<and> ids (todos (snd (put_todo 9 ''a'' renaming one_active))) = [Some (JStr ''b'')]"
  by (simp add: post_todos_def put_todo_def forged_def renaming_def one_active_def milk_def
      has_id_def field_def ids_def Let_def)

text \<open>
  Claim C2 (the code departs from it): after the three requests of \<open>forged_run\<close> the
  identifier \<open>a\<close> is in the Active Set and in the Recycle Set at once. Before the third
  request the two sets were separate.
\<close>

theorem identifier_in_both_sets:
  "separate recycled_run
   \<and> ids (todos recycled_run) = [] \<and> ids (recycled recycled_run) = [Some (JStr ''a'')]
   \<and> ids (todos forged_run) = [Some (JStr ''a'')]
   \<and> ids (recycled forged_run) = [Some (JStr ''a'')]
   \<and> \<not> separate forged_run"
  by (simp add: forged_run_def recycled_run_def dispatch_def strip_slash_def routes_def
      run_handler_def as_reply_def post_todos_def patch_recycle_def splice1_def forged_def
      milk_body_def empty_store_def has_id_def ids_def separate_def lower_def Let_def)

text \<open>
  Claim C5 (the code departs from it): in the state \<open>twin_run\<close> the Active Set holds the
  task ``Pay rent'' under the identifier \<open>a\<close>, which a recycled task carries too. Delete
  of \<open>a\<close> moves ``Pay rent'' to the end of the Recycle Set; Restore of \<open>a\<close>, with no sweep
  in between, takes the first recycled task of that identifier and puts ``Buy milk'' into
  the Active Set, not the task that was deleted.
\<close>

theorem restore_returns_twin:
  "ids (todos twin_run) = [Some (JStr ''a'')]
   \<and> field ''title'' (fst (patch_recycle 11 ''a'' twin_run)) = Some (JStr ''Pay rent'')
   \<and> field ''title'' (fst (patch_restore 13 ''a'' (snd (patch_recycle 11 ''a'' twin_run))))
       = Some (JStr ''Buy milk'')
   \<and> length (todos (snd (patch_restore 13 ''a'' (snd (patch_recycle 11 ''a'' twin_run))))) = 1"
  by (simp add: twin_run_def recycled_run_def dispatch_def strip_slash_def routes_def
      run_handler_def as_reply_def post_todos_def patch_recycle_def patch_restore_def
      splice1_def rent_forged_def milk_body_def empty_store_def has_id_def ids_def field_def
      lower_def Let_def)


subsection \<open>What keeps the two sets separate\<close>

text \<open>
  Every handler but the two that merge a request body keeps the invariant; those two
  keep it when the body has no \<open>id\<close> (and, for the create handler, when the identifier
  drawn is new).
\<close>

lemma ids_append: "ids (xs @ ys) = ids xs @ ids ys"
  by (simp add: ids_def)

lemma ids_Cons: "ids (x # xs) = x ''id'' # ids xs"
  by (simp add: ids_def)

lemma ids_Nil: "ids [] = []"
  by (simp add: ids_def)

lemma ids_update_same:
  "k < length xs \<Longrightarrow> t ''id'' = (xs ! k) ''id'' \<Longrightarrow> ids (xs[k := t]) = ids xs"
  by (simp add: ids_def map_update list_update_same_conv)

lemma separate_patch_recycle: "separate s \<Longrightarrow> separate (snd (patch_recycle now i s))"
proof (cases "findIndex (has_id i) (todos s)")
  case None
  assume "separate s"
  with None show ?thesis by (simp add: patch_recycle_def)
next
  case (Some k)
  assume inv: "separate s"
  from findIndex_Some_split [OF Some] obtain pre t post
    where split: "todos s = pre @ t # post" "k = length pre"
    by blast
  with Some have "snd (patch_recycle now i s)
      = \<lparr>todos = pre @ post, recycled = recycled s @ [t(''deletedAt'' \<mapsto> JIso now)]\<rparr>"
    by (simp add: patch_recycle_def splice1_def Let_def)
  with inv split(1) show ?thesis
    by (auto simp: separate_def ids_append ids_Cons ids_Nil)
qed

lemma separate_patch_restore: "separate s \<Longrightarrow> separate (snd (patch_restore now i s))"
proof (cases "findIndex (has_id i) (recycled s)")
  case None
  assume "separate s"
  with None show ?thesis by (simp add: patch_restore_def)
next
  case (Some k)
  assume inv: "separate s"
  from findIndex_Some_split [OF Some] obtain pre t post
    where split: "recycled s = pre @ t # post" "k = length pre"
    by blast
  with Some have "snd (patch_restore now i s)
      = \<lparr>todos = todos s @ [(t(''deletedAt'' := None))(''restoredAt'' \<mapsto> JIso now)],
         recycled = pre @ post\<rparr>"
    by (simp add: patch_restore_def splice1_def Let_def)
  with inv split(1) show ?thesis
    by (auto simp: separate_def ids_append ids_Cons ids_Nil)
qed

lemma separate_delete_todo: "separate s \<Longrightarrow> separate (snd (delete_todo i s))"
proof (cases "findIndex (has_id i) (recycled s)")
  case None
  assume "separate s"
  with None show ?thesis by (simp add: delete_todo_def)
next
  case (Some k)
  assume inv: "separate s"
  from findIndex_Some_split [OF Some] obtain pre t post
    where split: "recycled s = pre @ t # post" "k = length pre"
    by blast
  with Some have "snd (delete_todo i s) = \<lparr>todos = todos s, recycled = pre @ post\<rparr>"
    by (simp add: delete_todo_def splice1_def)
  with inv split(1) show ?thesis
    by (auto simp: separate_def ids_append ids_Cons ids_Nil)
qed

lemma separate_delete_cleanup: "separate s \<Longrightarrow> separate (snd (delete_cleanup h now s))"
  by (auto simp: separate_def delete_cleanup_def ids_def Let_def distinct_map_filter)

lemma separate_patch_toggle: "separate s \<Longrightarrow> separate (snd (patch_toggle now i s))"
proof (cases "findIndex (has_id i) (todos s)")
  case None
  assume "separate s"
  with None show ?thesis by (simp add: patch_toggle_def)
next
  case (Some k)
  assume inv: "separate s"
  from findIndex_Some_split [OF Some] have k: "k < length (todos s)"
    by auto
  then have "ids (todos (snd (patch_toggle now i s))) = ids (todos s)"
    using Some by (simp add: patch_toggle_def Let_def ids_update_same)
  moreover have "recycled (snd (patch_toggle now i s)) = recycled s"
    using Some by (simp add: patch_toggle_def Let_def)
  ultimately show ?thesis
    using inv by (simp add: separate_def)
qed

lemma separate_put_todo:
  "separate s \<Longrightarrow> body ''id'' = None \<Longrightarrow> separate (snd (put_todo now i body s))"
proof (cases "findIndex (has_id i) (todos s)")
  case None
  assume "separate s"
  with None show ?thesis by (simp add: put_todo_def)
next
  case (Some k)
  assume inv: "separate s" and body: "body ''id'' = None"
  from findIndex_Some_split [OF Some] have k: "k < length (todos s)"
    by auto
  then have "ids (todos (snd (put_todo now i body s))) = ids (todos s)"
    using Some body by (simp add: put_todo_def Let_def ids_update_same map_add_def)
  moreover have "recycled (snd (put_todo now i body s)) = recycled s"
    using Some by (simp add: put_todo_def Let_def)
  ultimately show ?thesis
    using inv by (simp add: separate_def)
qed

lemma separate_post_todos:
  "separate s \<Longrightarrow> body ''id'' = None
     \<Longrightarrow> Some (JStr uuid) \<notin> set (ids (todos s)) \<union> set (ids (recycled s))
     \<Longrightarrow> separate (snd (post_todos uuid now body s))"
  by (auto simp: separate_def post_todos_def Let_def ids_append ids_Cons ids_Nil map_add_def)


section \<open>The Storage module's recycle bin\<close>

text \<open>
  The module's own delete, restore and permanent deletion move the task in the same way,
  but they signal no failure, \<open>restoreTask\<close> stamps no \<open>restoredAt\<close>, and
  \<open>permanentlyDeleteTask\<close> removes every recycled task that carries the identifier.
\<close>

lemma Storage_deleteTask_effect:
  "(todoTasks ls = pre @ t # post \<and> (\<forall>u\<in>set pre. \<not> has_id i u) \<and> has_id i t \<longrightarrow>
      Storage_deleteTask now i ls
        = (pre @ post,
           \<lparr>todoTasks = pre @ post,
            recycledTasks = recycledTasks ls @ [t(''deletedAt'' \<mapsto> JIso now)]\<rparr>))
   \<and> ((\<forall>u\<in>set (todoTasks ls). \<not> has_id i u) \<longrightarrow> Storage_deleteTask now i ls = (todoTasks ls, ls))"
  by (auto simp: Storage_deleteTask_def findIndex_first findIndex_None[THEN iffD2] splice1_middle
      Let_def)

lemma Storage_restoreTask_effect:
  "(recycledTasks ls = pre @ t # post \<and> (\<forall>u\<in>set pre. \<not> has_id i u) \<and> has_id i t \<longrightarrow>
      Storage_restoreTask i ls
        = (pre @ post,
           \<lparr>todoTasks = todoTasks ls @ [t(''deletedAt'' := None)], recycledTasks = pre @ post\<rparr>))
   \<and> ((\<forall>u\<in>set (recycledTasks ls). \<not> has_id i u) \<longrightarrow>
        Storage_restoreTask i ls = (recycledTasks ls, ls))"
  by (auto simp: Storage_restoreTask_def findIndex_first findIndex_None[THEN iffD2] splice1_middle
      Let_def)

lemma Storage_permanentlyDeleteTask_effect:
  "todoTasks (snd (Storage_permanentlyDeleteTask i ls)) = todoTasks ls
   \<and> (\<forall>u\<in>set (recycledTasks (snd (Storage_permanentlyDeleteTask i ls))). \<not> has_id i u)
   \<and> ((\<forall>u\<in>set (recycledTasks ls). \<not> has_id i u) \<longrightarrow>
        Storage_permanentlyDeleteTask i ls = (recycledTasks ls, ls))"
  by (auto simp: Storage_permanentlyDeleteTask_def Let_def filter_id_conv)

end
